theory Spec2Isabelle
  imports Complex_Main "HOL-Library.Log_Nat"
begin

section \<open>Data model\<close>

text \<open>
  The two programs, \<^verbatim>\<open>image_formatter.py\<close> (command line) and \<^verbatim>\<open>app.py\<close> (web
  upload), share one pipeline: open an image, apply its EXIF orientation, centre it on a
  square canvas, save the canvas. The imaging library is not part of the repository. An
  image is modelled by the attributes the programs read (\<open>width\<close>, \<open>height\<close>, \<open>mode\<close>,
  \<open>info\<close>) and a description of where its pixels come from; a canvas is modelled by the
  library calls that build it (\<open>Image.new\<close>, then one \<open>paste\<close>). Python integers are
  \<open>int\<close>, strings are \<open>string\<close> (characters are ASCII), and the \<open>info\<close> dictionary is an
  association list read with \<open>map_of\<close>.
\<close>

type_synonym blob = string

datatype pixel_data = Decoded nat | Lanczos pixel_data int int

record image =
  width :: int
  height :: int
  mode :: string
  info :: "(string \<times> blob) list"
  pixels :: pixel_data

type_synonym rgb = "int \<times> int \<times> int"

record canvas =
  c_mode :: string
  c_size :: "int \<times> int"
  c_fill :: "int list"
  c_pasted :: "image option"
  c_box :: "int \<times> int"
  c_mask :: "image option"

record path =
  p_parent :: string
  p_stem :: string
  p_suffix :: string

record save_kwargs =
  k_format :: string
  k_lossless :: "bool option"
  k_exif :: "blob option"
  k_icc_profile :: "blob option"

datatype exn = ValueError string | ZeroDivisionError | OSError string

datatype level = INFO | WARNING | ERROR

datatype event =
    Log level string
  | Decode path
  | Save path save_kwargs canvas
  | Mkdir string
  | Complete nat nat

text \<open>
  Everything outside the programs is a field of \<open>world\<close>: what \<open>Image.open\<close> returns for
  a path (an exception or an image), what \<open>ImageOps.exif_transpose\<close> returns for an image,
  whether \<open>save\<close> raises, what \<open>secure_filename\<close> makes of an upload's name, whether
  storing an upload raises, and the file system queries of \<open>main\<close>. A theorem that
  quantifies over \<open>world\<close> holds whatever the library and the file system do.
  \<open>Decode p\<close> is the event of opening \<open>p\<close> as an image, \<open>Save p kw cv\<close> a completed
  \<open>cv.save(p, **kw)\<close>, \<open>Complete m n\<close> the closing log line with its two counts.
\<close>

record world =
  Image_open :: "path \<Rightarrow> exn + image"
  exif_transpose :: "image \<Rightarrow> exn + image"
  Image_save :: "canvas \<Rightarrow> path \<Rightarrow> save_kwargs \<Rightarrow> exn option"
  secure_filename :: "string \<Rightarrow> string"
  file_save :: "string \<Rightarrow> path \<Rightarrow> exn option"
  path_exists :: "path \<Rightarrow> bool"
  is_file :: "path \<Rightarrow> bool"
  is_dir :: "path \<Rightarrow> bool"
  iterdir :: "path \<Rightarrow> path list"

section \<open>Strings\<close>

definition lower_char :: "char \<Rightarrow> char" where
  "lower_char c =
     (let n = (of_char c :: nat)
      in if of_char CHR ''A'' \<le> n \<and> n \<le> of_char CHR ''Z'' then char_of (n + 32) else c)"

definition lower :: "string \<Rightarrow> string" where
  "lower s = map lower_char s"

definition SUPPORTED_FORMATS :: "string set" where
  "SUPPORTED_FORMATS =
     {''.jpg'', ''.jpeg'', ''.png'', ''.tiff'', ''.tif'', ''.bmp'', ''.webp''}"

section \<open>The imaging library calls, recorded\<close>

definition Image_new :: "string \<Rightarrow> int \<times> int \<Rightarrow> int list \<Rightarrow> canvas" where
  "Image_new m sz color =
     \<lparr>c_mode = m, c_size = sz, c_fill = color, c_pasted = None, c_box = (0, 0),
      c_mask = None\<rparr>"

definition paste :: "canvas \<Rightarrow> image \<Rightarrow> int \<times> int \<Rightarrow> image option \<Rightarrow> canvas" where
  "paste cv im box msk = cv\<lparr>c_pasted := Some im, c_box := box, c_mask := msk\<rparr>"

definition resize :: "image \<Rightarrow> int \<times> int \<Rightarrow> image" where
  "resize im sz =
     im\<lparr>width := fst sz, height := snd sz,
        pixels := Lanczos (pixels im) (fst sz) (snd sz)\<rparr>"



section \<open>The shared steps\<close>

text \<open>\<^verbatim>\<open>apply_exif_orientation\<close> (the same text in both files).\<close>

definition apply_exif_orientation :: "world \<Rightarrow> image \<Rightarrow> image \<times> event list" where
  "apply_exif_orientation w img =
     (case exif_transpose w img of
        Inr transposed \<Rightarrow> (transposed, [])
      | Inl e \<Rightarrow> (img, [Log WARNING ''Could not apply EXIF orientation'']))"

definition has_transparency_info :: "image \<Rightarrow> bool" where
  "has_transparency_info img = (map_of (info img) ''transparency'' \<noteq> None)"

definition new_canvas :: "int \<Rightarrow> rgb option \<Rightarrow> canvas" where
  "new_canvas canvas_size bg_color =
     (case bg_color of
        None \<Rightarrow> Image_new ''RGBA'' (canvas_size, canvas_size) [0, 0, 0, 0]
      | Some (r, g, b) \<Rightarrow> Image_new ''RGB'' (canvas_size, canvas_size) [r, g, b])"

definition paste_centered :: "canvas \<Rightarrow> image \<Rightarrow> int \<Rightarrow> canvas" where
  "paste_centered cv img canvas_size =
     (let x = (canvas_size - width img) div 2;
          y = (canvas_size - height img) div 2
      in if mode img = ''RGBA'' \<or> has_transparency_info img
         then paste cv img (x, y) (Some img)
         else paste cv img (x, y) None)"

section \<open>The command-line program\<close>

text \<open>\<^verbatim>\<open>center_image_on_canvas\<close> of \<^verbatim>\<open>image_formatter.py\<close>; \<open>None\<close> is its \<open>return None\<close>.\<close>

definition center_image_on_canvas ::
  "image \<Rightarrow> int \<Rightarrow> rgb option \<Rightarrow> canvas option \<times> event list" where
  "center_image_on_canvas img canvas_size bg_color =
     (if width img > canvas_size \<or> height img > canvas_size
      then (None, [Log WARNING ''exceeds canvas size - skipping''])
      else (Some (paste_centered (new_canvas canvas_size bg_color) img canvas_size), []))"

definition truthy :: "blob option \<Rightarrow> bool" where
  "truthy b = (case b of None \<Rightarrow> False | Some s \<Rightarrow> s \<noteq> [])"

definition save_kwargs_for :: "path \<Rightarrow> image \<Rightarrow> save_kwargs" where
  "save_kwargs_for output_path img =
     (let exif = map_of (info img) ''exif'';
          icc_profile = map_of (info img) ''icc_profile'';
          output_ext = lower (p_suffix output_path);
          kw0 = (if output_ext = ''.webp''
                 then \<lparr>k_format = ''WEBP'', k_lossless = Some True, k_exif = None,
                       k_icc_profile = None\<rparr>
                 else \<lparr>k_format = ''PNG'', k_lossless = None, k_exif = None,
                       k_icc_profile = None\<rparr>);
          kw1 = (if truthy exif then kw0\<lparr>k_exif := exif\<rparr> else kw0)
      in if truthy icc_profile then kw1\<lparr>k_icc_profile := icc_profile\<rparr> else kw1)"

text \<open>
  \<^verbatim>\<open>process_image\<close> of \<^verbatim>\<open>image_formatter.py\<close>. The result is the returned boolean and
  the events of the call, in order. Every exception raised inside the \<^verbatim>\<open>try\<close> ends in the
  \<^verbatim>\<open>except\<close> branch: log an error, return \<open>False\<close>.
\<close>

definition process_image ::
  "world \<Rightarrow> path \<Rightarrow> path \<Rightarrow> int \<Rightarrow> rgb option \<Rightarrow> bool \<times> event list" where
  "process_image w input_path output_path canvas_size bg_color =
     (case Image_open w input_path of
        Inl e \<Rightarrow> (False, [Decode input_path, Log ERROR ''Error processing''])
      | Inr img0 \<Rightarrow>
          (let (img, t1) = apply_exif_orientation w img0;
               (result, t2) = center_image_on_canvas img canvas_size bg_color
           in case result of
                None \<Rightarrow> (False, Decode input_path # t1 @ t2)
              | Some cv \<Rightarrow>
                  (let kw = save_kwargs_for output_path img
                   in case Image_save w cv output_path kw of
                        Some e \<Rightarrow>
                          (False, Decode input_path # t1 @ t2 @ [Log ERROR ''Error processing''])
                      | None \<Rightarrow>
                          (True, Decode input_path # t1 @ t2 @
                                 [Save output_path kw cv, Log INFO ''Processed'']))))"

section \<open>Double-precision arithmetic\<close>

text \<open>
  \<^verbatim>\<open>app.py\<close> computes the scale factor in Python floats (IEEE 754 binary64). A finite
  float is modelled by the rational it denotes. \<open>fl\<close> rounds a rational to the nearest
  number with a 53-bit significand, ties to the even significand; the exponent range is
  not bounded, so \<open>fl\<close> is binary64 rounding for magnitudes between \<open>2 powi -1022\<close> and
  \<open>2 powi 1024\<close>, far beyond what image dimensions reach. \<open>expo x\<close> is the exponent
  \<open>e\<close> with \<open>2 powi e \<le> x < 2 powi (e + 1)\<close>.
\<close>

definition expo :: "rat \<Rightarrow> int" where
  "expo x =
     (let (a, b) = quotient_of x; e = bitlen a - bitlen b
      in if 2 powi e \<le> x then e else e - 1)"

definition round_half_even :: "rat \<Rightarrow> int" where
  "round_half_even q =
     (let f = \<lfloor>q\<rfloor>; r = q - of_int f
      in if r < 1 / 2 then f else if 1 / 2 < r then f + 1
         else if even f then f else f + 1)"

definition fl :: "rat \<Rightarrow> rat" where
  "fl x =
     (if x = 0 then 0
      else (let u = 2 powi (expo \<bar>x\<bar> - 52)
            in sgn x * of_int (round_half_even (\<bar>x\<bar> / u)) * u))"

text \<open>\<open>a / b\<close> on Python integers: the correctly rounded quotient, or ZeroDivisionError.\<close>

definition true_div :: "int \<Rightarrow> int \<Rightarrow> exn + rat" where
  "true_div a b = (if b = 0 then Inl ZeroDivisionError else Inr (fl (of_int a / of_int b)))"

text \<open>\<open>n * x\<close> for an integer \<open>n\<close> and a float \<open>x\<close>: \<open>n\<close> is converted, the product rounded.\<close>

definition int_times_float :: "int \<Rightarrow> rat \<Rightarrow> rat" where
  "int_times_float n x = fl (fl (of_int n) * x)"

text \<open>\<open>int(x)\<close> on a float truncates towards zero.\<close>

definition py_int :: "rat \<Rightarrow> int" where
  "py_int x = (if 0 \<le> x then \<lfloor>x\<rfloor> else \<lceil>x\<rceil>)"

section \<open>The web program\<close>

text \<open>
  \<^verbatim>\<open>center_image_on_canvas\<close> of \<^verbatim>\<open>app.py\<close>: an image larger than the canvas is resized
  first. The function has no \<^verbatim>\<open>return None\<close>; the division raises when a dimension is 0.
\<close>

definition new_size :: "int \<Rightarrow> int \<Rightarrow> int \<Rightarrow> exn + int \<times> int" where
  "new_size w h canvas_size =
     (case true_div canvas_size w of
        Inl e \<Rightarrow> Inl e
      | Inr sw \<Rightarrow>
          (case true_div canvas_size h of
             Inl e \<Rightarrow> Inl e
           | Inr sh \<Rightarrow>
               (let scale_factor = min sw sh;
                    new_width = py_int (int_times_float w scale_factor);
                    new_height = py_int (int_times_float h scale_factor)
                in Inr (new_width, new_height))))"

definition app_center_image_on_canvas ::
  "image \<Rightarrow> int \<Rightarrow> rgb option \<Rightarrow> exn + canvas \<times> event list" where
  "app_center_image_on_canvas img canvas_size bg_color =
     (if width img > canvas_size \<or> height img > canvas_size
      then (case new_size (width img) (height img) canvas_size of
              Inl e \<Rightarrow> Inl e
            | Inr sz \<Rightarrow>
                Inr (paste_centered (new_canvas canvas_size bg_color) (resize img sz)
                       canvas_size,
                     [Log INFO ''Resized image'']))
      else Inr (paste_centered (new_canvas canvas_size bg_color) img canvas_size, []))"

text \<open>\<^verbatim>\<open>process_single_image\<close> of \<^verbatim>\<open>app.py\<close>: the canvas is always saved as PNG.\<close>

definition png_kwargs :: save_kwargs where
  "png_kwargs =
     \<lparr>k_format = ''PNG'', k_lossless = None, k_exif = None, k_icc_profile = None\<rparr>"

definition process_single_image ::
  "world \<Rightarrow> path \<Rightarrow> path \<Rightarrow> int \<Rightarrow> rgb option \<Rightarrow> bool \<times> event list" where
  "process_single_image w input_path output_path canvas_size bg_color =
     (case Image_open w input_path of
        Inl e \<Rightarrow> (False, [Decode input_path, Log ERROR ''Error processing''])
      | Inr img0 \<Rightarrow>
          (let (img, t1) = apply_exif_orientation w img0
           in case app_center_image_on_canvas img canvas_size bg_color of
                Inl e \<Rightarrow> (False, Decode input_path # t1 @ [Log ERROR ''Error processing''])
              | Inr (cv, t2) \<Rightarrow>
                  (case Image_save w cv output_path png_kwargs of
                     Some e \<Rightarrow>
                       (False, Decode input_path # t1 @ t2 @ [Log ERROR ''Error processing''])
                   | None \<Rightarrow>
                       (True, Decode input_path # t1 @ t2 @
                              [Save output_path png_kwargs cv, Log INFO ''Processed'']))))"

section \<open>Parsing the background colour\<close>

text \<open>Whitespace as \<open>str.strip()\<close> and \<open>int()\<close> see it, for code points below 256.\<close>

definition is_space :: "char \<Rightarrow> bool" where
  "is_space c =
     (let n = (of_char c :: nat)
      in (9 \<le> n \<and> n \<le> 13) \<or> (28 \<le> n \<and> n \<le> 32) \<or> n = 133 \<or> n = 160)"

definition strip :: "string \<Rightarrow> string" where
  "strip s = rev (dropWhile is_space (rev (dropWhile is_space s)))"

definition hex_digit :: "char \<Rightarrow> int option" where
  "hex_digit c =
     (let n = (of_char c :: nat)
      in if 48 \<le> n \<and> n \<le> 57 then Some (int n - 48)
         else if 97 \<le> n \<and> n \<le> 102 then Some (int n - 87)
         else if 65 \<le> n \<and> n \<le> 70 then Some (int n - 55)
         else None)"

text \<open>The digits after the first one; a single underscore may stand between two digits.\<close>

fun more_digits :: "int \<Rightarrow> string \<Rightarrow> int option" where
  "more_digits acc [] = Some acc"
| "more_digits acc (c # cs) =
     (if c = CHR ''_''
      then (case cs of
              [] \<Rightarrow> None
            | d # ds \<Rightarrow>
                (case hex_digit d of
                   None \<Rightarrow> None
                 | Some v \<Rightarrow> more_digits (16 * acc + v) ds))
      else (case hex_digit c of
              None \<Rightarrow> None
            | Some v \<Rightarrow> more_digits (16 * acc + v) cs))"

text \<open>
  \<open>int(s, 16)\<close>: surrounding whitespace, an optional sign, an optional \<open>0x\<close> prefix
  (which one underscore may follow), then the digits.
\<close>

definition int16 :: "string \<Rightarrow> exn + int" where
  "int16 s =
     (let t = strip s;
          (sg, u) = (case t of
                       [] \<Rightarrow> (1, t)
                     | c # r \<Rightarrow>
                         if c = CHR ''+'' then (1, r)
                         else if c = CHR ''-'' then (- 1, r) else (1, t));
          v = (case u of
                 c # x # r \<Rightarrow>
                   if c = CHR ''0'' \<and> (x = CHR ''x'' \<or> x = CHR ''X'')
                   then (case r of
                           [] \<Rightarrow> r
                         | y # r' \<Rightarrow> if y = CHR ''_'' then r' else r)
                   else u
               | _ \<Rightarrow> u)
      in case v of
           [] \<Rightarrow> Inl (ValueError ''invalid literal for int() with base 16'')
         | c # cs \<Rightarrow>
             (case hex_digit c of
                None \<Rightarrow> Inl (ValueError ''invalid literal for int() with base 16'')
              | Some d \<Rightarrow>
                  (case more_digits d cs of
                     None \<Rightarrow> Inl (ValueError ''invalid literal for int() with base 16'')
                   | Some n \<Rightarrow> Inr (sg * n))))"

definition strip_hash :: "string \<Rightarrow> string" where
  "strip_hash s = (let s1 = strip s in if take 1 s1 = ''#'' then drop 1 s1 else s1)"

definition parse_color :: "string option \<Rightarrow> exn + rgb option" where
  "parse_color color_str =
     (case color_str of
        None \<Rightarrow> Inr None
      | Some s0 \<Rightarrow>
          (let s = strip_hash s0
           in if length s = 6
              then (case int16 (take 2 s) of
                      Inl e \<Rightarrow> Inl e
                    | Inr r \<Rightarrow>
                        (case int16 (take 2 (drop 2 s)) of
                           Inl e \<Rightarrow> Inl e
                         | Inr g \<Rightarrow>
                             (case int16 (take 2 (drop 4 s)) of
                                Inl e \<Rightarrow> Inl e
                              | Inr b \<Rightarrow> Inr (Some (r, g, b)))))
              else if length s = 3
              then (case int16 [s ! 0] of
                      Inl e \<Rightarrow> Inl e
                    | Inr r \<Rightarrow>
                        (case int16 [s ! 1] of
                           Inl e \<Rightarrow> Inl e
                         | Inr g \<Rightarrow>
                             (case int16 [s ! 2] of
                                Inl e \<Rightarrow> Inl e
                              | Inr b \<Rightarrow> Inr (Some (r * 17, g * 17, b * 17)))))
              else Inl (ValueError ''Invalid color format'')))"

section \<open>The command-line driver\<close>

record args =
  a_input :: path
  a_output :: path
  a_size :: int
  a_bg :: "string option"

text \<open>\<open>Exit n\<close> is \<^verbatim>\<open>sys.exit(n)\<close>, that is SystemExit raised; \<open>Return\<close> is the end of \<open>main\<close>.\<close>

datatype status = Exit int | Return

definition exn_message :: "exn \<Rightarrow> string" where
  "exn_message e =
     (case e of ValueError m \<Rightarrow> m | ZeroDivisionError \<Rightarrow> ''division by zero'' | OSError m \<Rightarrow> m)"

definition path_str :: "path \<Rightarrow> string" where
  "path_str p = p_parent p @ ''/'' @ p_stem p @ p_suffix p"

text \<open>The loop over the input folder, with the two counters and the events so far.\<close>

fun process_folder ::
  "world \<Rightarrow> path \<Rightarrow> int \<Rightarrow> rgb option \<Rightarrow> path list \<Rightarrow> nat \<times> nat \<times> event list
     \<Rightarrow> nat \<times> nat \<times> event list" where
  "process_folder w output_path canvas_size bg_color [] st = st"
| "process_folder w output_path canvas_size bg_color (file_path # rest) (processed, skipped, t) =
     (if is_file w file_path \<and> lower (p_suffix file_path) \<in> SUPPORTED_FORMATS
      then (let output_file =
                  \<lparr>p_parent = path_str output_path, p_stem = p_stem file_path,
                   p_suffix = ''.png''\<rparr>;
                (ok, t') = process_image w file_path output_file canvas_size bg_color
            in process_folder w output_path canvas_size bg_color rest
                 (if ok then (processed + 1, skipped, t @ t')
                  else (processed, skipped + 1, t @ t')))
      else process_folder w output_path canvas_size bg_color rest (processed, skipped, t))"

definition main :: "world \<Rightarrow> args \<Rightarrow> status \<times> event list" where
  "main w args =
     (let input_path = a_input args; output_path = a_output args; canvas_size = a_size args
      in case parse_color (a_bg args) of
           Inl e \<Rightarrow> (Exit 1, [Log ERROR (exn_message e)])
         | Inr bg_color \<Rightarrow>
             if \<not> path_exists w input_path
             then (Exit 1, [Log ERROR ''Input path does not exist''])
             else if is_file w input_path
             then (if lower (p_suffix input_path) \<notin> SUPPORTED_FORMATS
                   then (Exit 1, [Log ERROR ''Unsupported file format''])
                   else (let out = (if lower (p_suffix output_path) \<notin> {''.png'', ''.webp''}
                                    then output_path\<lparr>p_suffix := ''.png''\<rparr>
                                    else output_path);
                             (success, t) = process_image w input_path out canvas_size bg_color
                         in (Exit (if success then 0 else 1),
                             Mkdir (p_parent output_path) # t)))
             else if path_exists w output_path \<and> \<not> is_dir w output_path
             then (Exit 1, [Log ERROR ''Output path must be a directory''])
             else (let t0 = (if \<not> path_exists w output_path
                             then [Mkdir (path_str output_path)] else []);
                       (processed, skipped, t) =
                         process_folder w output_path canvas_size bg_color
                           (iterdir w input_path) (0, 0, t0)
                   in (Return, t @ [Complete processed skipped])))"

section \<open>The upload loop of the web program\<close>

text \<open>\<open>Path(name).suffix\<close> and \<open>Path(name).stem\<close> for a name without separators.\<close>

definition rfind_dot :: "string \<Rightarrow> nat option" where
  "rfind_dot name =
     (if CHR ''.'' \<in> set name
      then Some (length name - 1 - length (takeWhile (\<lambda>c. c \<noteq> CHR ''.'') (rev name)))
      else None)"

definition name_suffix :: "string \<Rightarrow> string" where
  "name_suffix name =
     (case rfind_dot name of
        None \<Rightarrow> []
      | Some i \<Rightarrow> if 0 < i \<and> i + 1 < length name then drop i name else [])"

definition name_stem :: "string \<Rightarrow> string" where
  "name_stem name =
     (case rfind_dot name of
        None \<Rightarrow> name
      | Some i \<Rightarrow> if 0 < i \<and> i + 1 < length name then take i name else name)"

fun digits_of :: "nat \<Rightarrow> string" where
  "digits_of n =
     (if n < 10 then [char_of (48 + n)]
      else digits_of (n div 10) @ [char_of (48 + n mod 10)])"

text \<open>
  The two \<^verbatim>\<open>while os.path.exists(...)\<close> loops of \<^verbatim>\<open>process_images\<close>: try
  \<open>base_1.ext\<close>, \<open>base_2.ext\<close>, ... until the name is free in the directory.
\<close>

partial_function (option) dedupe ::
  "string list \<Rightarrow> string \<Rightarrow> string \<Rightarrow> string \<Rightarrow> nat \<Rightarrow> string option" where
  "dedupe existing filename base_name file_ext counter =
     (if filename \<in> set existing
      then dedupe existing (base_name @ ''_'' @ digits_of counter @ file_ext) base_name
             file_ext (counter + 1)
      else Some filename)"

record web_state =
  processed_count :: nat
  skipped_count :: nat
  input_dir :: "string list"
  output_dir :: "string list"
  trace :: "event list"

definition path_in :: "string \<Rightarrow> string \<Rightarrow> path" where
  "path_in dir name = \<lparr>p_parent = dir, p_stem = name_stem name, p_suffix = name_suffix name\<rparr>"

text \<open>
  One pass of the \<^verbatim>\<open>for i, file in enumerate(files)\<close> loop of \<^verbatim>\<open>process_images\<close>, for the
  upload whose \<open>file.filename\<close> is \<open>raw\<close>. The state holds the two counters and the names
  present in the two temporary directories. \<open>None\<close> is a renaming loop that does not end.
\<close>

definition process_upload ::
  "world \<Rightarrow> string \<Rightarrow> string \<Rightarrow> web_state \<Rightarrow> string \<Rightarrow> web_state option" where
  "process_upload w temp_input_dir temp_output_dir st raw =
     (if raw = [] then Some st
      else
        (let filename0 = secure_filename w raw;
             file_ext = lower (name_suffix filename0);
             t0 = trace st @ [Log INFO ''Processing file'']
         in if file_ext \<in> SUPPORTED_FORMATS
            then
              (case dedupe (input_dir st) filename0 (name_stem filename0) file_ext 1 of
                 None \<Rightarrow> None
               | Some filename \<Rightarrow>
                   (case dedupe (output_dir st) (name_stem filename @ ''.png'')
                           (name_stem filename) ''.png'' 1 of
                      None \<Rightarrow> None
                    | Some output_filename \<Rightarrow>
                        (let input_path = path_in temp_input_dir filename;
                             output_path = path_in temp_output_dir output_filename
                         in case file_save w raw input_path of
                              Some e \<Rightarrow>
                                Some (st\<lparr>skipped_count := skipped_count st + 1,
                                         trace := t0 @ [Log ERROR ''Error processing file'']\<rparr>)
                            | None \<Rightarrow>
                                (let (ok, t) =
                                       process_single_image w input_path output_path 1200 None
                                 in if ok
                                    then Some (st\<lparr>processed_count := processed_count st + 1,
                                                  input_dir := filename # input_dir st,
                                                  output_dir := output_filename # output_dir st,
                                                  trace := t0 @ [Log INFO ''Saved file to''] @ t @
                                                           [Log INFO ''Successfully processed'']\<rparr>)
                                    else Some (st\<lparr>skipped_count := skipped_count st + 1,
                                                  input_dir := filename # input_dir st,
                                                  trace := t0 @ [Log INFO ''Saved file to''] @ t @
                                                           [Log WARNING ''Failed to process'']\<rparr>)))))
            else Some (st\<lparr>skipped_count := skipped_count st + 1,
                          trace := t0 @ [Log WARNING ''Unsupported format'']\<rparr>)))"

fun process_uploads ::
  "world \<Rightarrow> string \<Rightarrow> string \<Rightarrow> string list \<Rightarrow> web_state \<Rightarrow> web_state option" where
  "process_uploads w tin tout [] st = Some st"
| "process_uploads w tin tout (raw # rest) st =
     (case process_upload w tin tout st raw of
        None \<Rightarrow> None
      | Some st' \<Rightarrow> process_uploads w tin tout rest st')"

section \<open>Notions of the specification\<close>



text \<open>The events that open an image or write an output.\<close>

fun is_decode :: "event \<Rightarrow> bool" where
  "is_decode (Decode p) = True"
| "is_decode e = False"

fun is_save :: "event \<Rightarrow> bool" where
  "is_save (Save p kw cv) = True"
| "is_save e = False"

section \<open>Concrete inputs\<close>

definition plain_image :: "int \<Rightarrow> int \<Rightarrow> string \<Rightarrow> (string \<times> blob) list \<Rightarrow> image" where
  "plain_image w h m i = \<lparr>width = w, height = h, mode = m, info = i, pixels = Decoded 0\<rparr>"

text \<open>A world where every path opens as \<open>img\<close>, no orientation is applied, nothing raises.\<close>

definition still_world :: "image \<Rightarrow> world" where
  "still_world img =
     \<lparr>Image_open = (\<lambda>p. Inr img), exif_transpose = (\<lambda>i. Inr i),
      Image_save = (\<lambda>cv p kw. None), secure_filename = (\<lambda>s. s),
      file_save = (\<lambda>s p. None), path_exists = (\<lambda>p. True), is_file = (\<lambda>p. True),
      is_dir = (\<lambda>p. False), iterdir = (\<lambda>p. [])\<rparr>"

definition file_path :: "string \<Rightarrow> string \<Rightarrow> path" where
  "file_path stem suffix = \<lparr>p_parent = ''.'', p_stem = stem, p_suffix = suffix\<rparr>"

definition gif_world :: world where
  "gif_world =
     \<lparr>Image_open = (\<lambda>p. Inl (OSError ''cannot identify image file'')),
      exif_transpose = (\<lambda>i. Inr i), Image_save = (\<lambda>cv p kw. None),
      secure_filename = (\<lambda>s. s), file_save = (\<lambda>s p. None),
      path_exists = (\<lambda>p. True), is_file = (\<lambda>p. p_suffix p \<noteq> []),
      is_dir = (\<lambda>p. p_suffix p = []), iterdir = (\<lambda>p. [file_path ''anim'' ''.gif''])\<rparr>"

definition fresh_state :: web_state where
  "fresh_state =
     \<lparr>processed_count = 0, skipped_count = 0, input_dir = [], output_dir = [], trace = []\<rparr>"

definition exif_image :: image where
  "exif_image = plain_image 100 100 ''RGB'' [(''exif'', ''Exif-II*''), (''icc_profile'', ''sRGB'')]"



section \<open>Oversized images in the command-line program\<close>

text \<open>
  Claim C2. In \<^verbatim>\<open>image_formatter.py\<close> (the variant that never downscales), when the
  image handed to \<open>center_image_on_canvas\<close> is wider or taller than the canvas, the
  function returns \<open>None\<close>, a value and not an exception, and builds no canvas;
  \<open>process_image\<close> then returns \<open>False\<close> and no \<open>save\<close> has happened. The image
  checked is the one that \<open>apply_exif_orientation\<close> returned.
\<close>

theorem C2_oversized_skipped:
  assumes "width img > canvas_size \<or> height img > canvas_size"
    and "Image_open w input_path = Inr img0"
    and "fst (apply_exif_orientation w img0) = img"
  shows "fst (center_image_on_canvas img canvas_size bg_color) = None \<and>
         fst (process_image w input_path output_path canvas_size bg_color) = False \<and>
         filter is_save (snd (process_image w input_path output_path canvas_size bg_color)) = []"
proof -
  obtain t1 where a: "apply_exif_orientation w img0 = (img, t1)"
    using assms(3) by (cases "apply_exif_orientation w img0") simp
  have t1: "filter is_save t1 = []"
    using a by (auto simp: apply_exif_orientation_def split: sum.splits)
  have c: "center_image_on_canvas img canvas_size bg_color =
             (None, [Log WARNING ''exceeds canvas size - skipping''])"
    using assms(1) by (simp add: center_image_on_canvas_def)
  show ?thesis
    using assms(2) a c t1 by (simp add: process_image_def)
qed

theorem C2_oversized_skipped_witness:
  "(width (plain_image 2000 1000 ''RGB'' []) > 1200 \<or>
    height (plain_image 2000 1000 ''RGB'' []) > 1200) \<and>
   fst (center_image_on_canvas (plain_image 2000 1000 ''RGB'' []) 1200 None) = None \<and>
   fst (process_image (still_world (plain_image 2000 1000 ''RGB'' [])) (file_path ''a'' ''.jpg'')
          (file_path ''a'' ''.png'') 1200 None) = False \<and>
   filter is_save (snd (process_image (still_world (plain_image 2000 1000 ''RGB'' []))
          (file_path ''a'' ''.jpg'') (file_path ''a'' ''.png'') 1200 None)) = []"
proof -
  let ?img = "plain_image 2000 1000 ''RGB'' []"
  have h1: "width ?img > 1200 \<or> height ?img > 1200" by (simp add: plain_image_def)
  have h2: "Image_open (still_world ?img) (file_path ''a'' ''.jpg'') = Inr ?img"
    by (simp add: still_world_def)
  have h3: "fst (apply_exif_orientation (still_world ?img) ?img) = ?img"
    by (simp add: apply_exif_orientation_def still_world_def)
  show ?thesis
    using h1 C2_oversized_skipped [OF h1 h2 h3, of None "file_path ''a'' ''.png''"] by simp
qed

section \<open>Facts about the recorded canvas\<close>

lemma half_bounds:
  fixes d :: int
  assumes "0 \<le> d"
  shows "0 \<le> d div 2" and "d div 2 \<le> d - d div 2" and "d - d div 2 \<le> d div 2 + 1"
  using assms by linarith+

lemma paste_centered_fields:
  "c_pasted (paste_centered cv img S) = Some img"
  "c_box (paste_centered cv img S) = ((S - width img) div 2, (S - height img) div 2)"
  "c_size (paste_centered cv img S) = c_size cv"
  "c_mode (paste_centered cv img S) = c_mode cv"
  "c_fill (paste_centered cv img S) = c_fill cv"
  "c_mask (paste_centered cv img S) =
     (if mode img = ''RGBA'' \<or> has_transparency_info img then Some img else None)"
  by (simp_all add: paste_centered_def paste_def Let_def)

lemma new_canvas_fields:
  "c_size (new_canvas S bg) = (S, S)"
  "c_mode (new_canvas S bg) = (case bg of None \<Rightarrow> ''RGBA'' | Some c \<Rightarrow> ''RGB'')"
  "c_fill (new_canvas S bg) = (case bg of None \<Rightarrow> [0, 0, 0, 0] | Some (r, g, b) \<Rightarrow> [r, g, b])"
  by (simp_all add: new_canvas_def Image_new_def split: option.splits prod.splits)

section \<open>Centring an image that fits\<close>



section \<open>Rounding to double precision\<close>

lemma expo_le:
  assumes "0 < x"
  shows "2 powi (expo x) \<le> x"
proof -
  obtain a b where q: "quotient_of x = (a, b)" by (cases "quotient_of x")
  have b: "0 < b" using q quotient_of_denom_pos by blast
  have x: "x = of_int a / of_int b" using q quotient_of_div by blast
  have a: "0 < a" using assms b x by (simp add: zero_less_divide_iff)
  have la: "(2::int) ^ nat (bitlen a - 1) \<le> a" using bitlen_bounds [OF a] by simp
  have lb: "b \<le> (2::int) ^ nat (bitlen b)" using bitlen_bounds [OF b] by simp
  have pa: "1 \<le> bitlen a" using a by (simp add: bitlen_def floorlog_def)
  have pb: "0 \<le> bitlen b" by (simp add: bitlen_def)
  have ra: "(2::rat) powi (bitlen a - 1) \<le> of_int a"
  proof -
    have "(2::rat) powi (bitlen a - 1) = of_int (2 ^ nat (bitlen a - 1))"
      using pa by (simp add: power_int_def)
    also have "\<dots> \<le> of_int a" using la by (simp only: of_int_le_iff)
    finally show ?thesis .
  qed
  have rb: "of_int b \<le> (2::rat) powi (bitlen b)"
  proof -
    have "of_int b \<le> (of_int (2 ^ nat (bitlen b)) :: rat)" using lb by (simp only: of_int_le_iff)
    also have "\<dots> = 2 powi (bitlen b)" using pb by (simp add: power_int_def)
    finally show ?thesis .
  qed
  have low: "(2::rat) powi (bitlen a - bitlen b - 1) \<le> x"
  proof -
    have "(2::rat) powi (bitlen a - bitlen b - 1) = 2 powi ((bitlen a - 1) - bitlen b)"
      by (simp add: algebra_simps)
    also have "\<dots> = 2 powi (bitlen a - 1) / 2 powi (bitlen b)"
      by (rule power_int_diff) simp
    also have "\<dots> \<le> of_int a / of_int b"
      using ra rb a b by (intro frac_le) simp_all
    finally show ?thesis using x by simp
  qed
  show ?thesis using q low by (simp add: expo_def Let_def)
qed

lemma round_half_even_bounds:
  "of_int (round_half_even q) \<le> q + 1 / 2" "of_int \<lfloor>q\<rfloor> \<le> (of_int (round_half_even q) :: rat)"
proof -
  define f where "f = \<lfloor>q\<rfloor>"
  have f: "of_int f \<le> q" by (simp add: f_def)
  have r: "round_half_even q =
             (if q - of_int f < 1 / 2 then f else if 1 / 2 < q - of_int f then f + 1
              else if even f then f else f + 1)"
    by (simp add: round_half_even_def Let_def f_def)
  show "of_int (round_half_even q) \<le> q + 1 / 2"
    unfolding r using f by (auto split: if_splits)
  show "of_int \<lfloor>q\<rfloor> \<le> (of_int (round_half_even q) :: rat)"
    unfolding r f_def [symmetric] by (auto split: if_splits)
qed

lemma fl_upper:
  assumes "0 < x"
  shows "fl x \<le> x * (1 + 1 / 2 ^ 53)" and "0 < fl x"
proof -
  define u :: rat where "u = 2 powi (expo x - 52)"
  have u: "0 < u" by (simp add: u_def)
  have ux: "u * 2 ^ 52 \<le> x"
  proof -
    have "u * 2 ^ 52 = 2 powi (expo x)" by (simp add: u_def power_int_diff)
    then show ?thesis using expo_le [OF assms] by simp
  qed
  have f: "fl x = of_int (round_half_even (x / u)) * u"
    using assms by (simp add: fl_def u_def Let_def)
  have "of_int (round_half_even (x / u)) * u \<le> (x / u + 1 / 2) * u"
    using round_half_even_bounds(1) [of "x / u"] u by (simp only: mult_le_cancel_right_pos)
  also have "\<dots> = x + u / 2" using u by (simp add: field_simps)
  also have "\<dots> \<le> x + x / 2 ^ 53" using ux by (simp add: field_simps)
  finally show "fl x \<le> x * (1 + 1 / 2 ^ 53)" using f by (simp add: field_simps)
  have "(2::rat) ^ 52 \<le> x / u" using ux u by (simp add: field_simps)
  then have "(2::int) ^ 52 \<le> \<lfloor>x / u\<rfloor>" by (simp add: le_floor_iff)
  then have "(0::rat) < of_int \<lfloor>x / u\<rfloor>" by simp
  then have "(0::rat) < of_int (round_half_even (x / u))"
    using round_half_even_bounds(2) [of "x / u"] by linarith
  then show "0 < fl x" using f u by simp
qed

lemma scaled_le:
  fixes n S :: int and s :: rat
  assumes n: "0 < n" and S: "0 < S" "S < 2 ^ 31"
    and s: "0 < s" "s \<le> fl (of_int S / of_int n)"
  shows "py_int (int_times_float n s) \<le> S" and "0 \<le> py_int (int_times_float n s)"
proof -
  define e :: rat where "e = 1 + 1 / 2 ^ 53"
  have e: "0 < e" by (simp add: e_def)
  have q: "(0::rat) < of_int S / of_int n" using n S by simp
  have s1: "s \<le> of_int S / of_int n * e"
    using s(2) fl_upper(1) [OF q] by (simp add: e_def)
  have fn: "0 < fl (of_int n)" "fl (of_int n) \<le> of_int n * e"
    using fl_upper [of "of_int n"] n by (simp_all add: e_def)
  have p: "0 < fl (of_int n) * s" using fn(1) s(1) by simp
  have "fl (of_int n) * s \<le> (of_int n * e) * (of_int S / of_int n * e)"
    using fn s s1 by (intro mult_mono) simp_all
  also have "\<dots> = of_int S * e * e" using n by (simp add: field_simps)
  finally have p1: "fl (of_int n) * s \<le> of_int S * e * e" .
  have "fl (fl (of_int n) * s) \<le> fl (of_int n) * s * e"
    using fl_upper(1) [OF p] by (simp add: e_def)
  also have "\<dots> \<le> of_int S * e * e * e" using p1 e by simp
  finally have r: "int_times_float n s \<le> of_int S * (e * e * e)"
    by (simp add: int_times_float_def mult.assoc)
  have e3: "e * e * e \<le> 1 + 1 / 2 ^ 51" by (simp add: e_def field_simps)
  have Sr: "(of_int S :: rat) \<le> 2 ^ 31" using S(2) by simp
  have S0: "(0::rat) \<le> of_int S" using S(1) by simp
  have "of_int S * (e * e * e) \<le> of_int S * (1 + 1 / 2 ^ 51)"
    using e3 S0 by (rule mult_left_mono)
  also have "\<dots> = of_int S + of_int S / 2 ^ 51" by (simp add: field_simps)
  also have "\<dots> < of_int S + 1" using Sr by simp
  finally have lt: "int_times_float n s < of_int (S + 1)" using r by simp
  have pos: "0 < int_times_float n s"
    using fl_upper(2) [OF p] by (simp add: int_times_float_def)
  have fl: "py_int (int_times_float n s) = \<lfloor>int_times_float n s\<rfloor>"
    using pos by (simp add: py_int_def)
  have "\<lfloor>int_times_float n s\<rfloor> < S + 1"
    using lt by (simp only: floor_less_iff)
  then show "py_int (int_times_float n s) \<le> S"
    unfolding fl by simp
  show "0 \<le> py_int (int_times_float n s)"
    unfolding fl using pos by simp
qed

lemma new_size_bounds:
  assumes "0 < w" and "0 < h" and "0 < S" and "S < 2 ^ 31"
  shows "\<exists>nw nh. new_size w h S = Inr (nw, nh) \<and> 0 \<le> nw \<and> nw \<le> S \<and> 0 \<le> nh \<and> nh \<le> S"
proof -
  let ?sw = "fl (of_int S / of_int w)" and ?sh = "fl (of_int S / of_int h)"
  let ?s = "min ?sw ?sh"
  have qw: "(0::rat) < of_int S / of_int w" and qh: "(0::rat) < of_int S / of_int h"
    using assms by simp_all
  have s: "0 < ?s" "?s \<le> ?sw" "?s \<le> ?sh"
    using fl_upper(2) [OF qw] fl_upper(2) [OF qh] by simp_all
  have n: "new_size w h S =
             Inr (py_int (int_times_float w ?s), py_int (int_times_float h ?s))"
    using assms by (simp add: new_size_def true_div_def Let_def)
  show ?thesis
    using n scaled_le [OF assms(1) assms(3) assms(4) s(1) s(2)]
      scaled_le [OF assms(2) assms(3) assms(4) s(1) s(3)] by simp
qed

section \<open>Downscaling in the web program\<close>




section \<open>The pasted image stays inside the canvas\<close>

text \<open>
  Claim C10. Whenever a canvas is produced, the paste offsets are not negative and the
  pasted image ends inside the canvas: \<open>0 \<le> x\<close>, \<open>0 \<le> y\<close>, \<open>x + w \<le> S\<close>,
  \<open>y + h \<le> S\<close>, for the width and height of the image that is pasted. In
  \<^verbatim>\<open>image_formatter.py\<close> an oversized image gives no canvas; in \<^verbatim>\<open>app.py\<close> it is
  resized first, and there the canvas size is taken positive and below \<open>2 ^ 31\<close> and the
  image dimensions not negative, as the imaging library has them.
\<close>

theorem C10_paste_inside_canvas:
  assumes "fst (center_image_on_canvas img S bg) = Some cv \<or>
           (0 < S \<and> S < 2 ^ 31 \<and> 0 \<le> width img \<and> 0 \<le> height img \<and>
            (\<exists>t. app_center_image_on_canvas img S bg = Inr (cv, t)))"
  shows "\<exists>im x y. c_pasted cv = Some im \<and> c_box cv = (x, y) \<and> c_size cv = (S, S) \<and>
           0 \<le> x \<and> 0 \<le> y \<and> x + width im \<le> S \<and> y + height im \<le> S"
proof -
  have fits: "\<exists>im x y. c_pasted cv = Some im \<and> c_box cv = (x, y) \<and> c_size cv = (S, S) \<and>
           0 \<le> x \<and> 0 \<le> y \<and> x + width im \<le> S \<and> y + height im \<le> S"
    if cv: "cv = paste_centered (new_canvas S bg) im S"
      and w: "width im \<le> S" and h: "height im \<le> S" for im
  proof -
    have dx: "0 \<le> S - width im" and dy: "0 \<le> S - height im" using w h by simp_all
    show ?thesis
      using half_bounds [OF dx] half_bounds [OF dy]
      by (simp add: cv paste_centered_fields new_canvas_fields)
  qed
  from assms show ?thesis
  proof
    assume "fst (center_image_on_canvas img S bg) = Some cv"
    then have "cv = paste_centered (new_canvas S bg) img S \<and> width img \<le> S \<and> height img \<le> S"
      by (auto simp: center_image_on_canvas_def split: if_splits)
    then show ?thesis using fits by blast
  next
    assume a: "0 < S \<and> S < 2 ^ 31 \<and> 0 \<le> width img \<and> 0 \<le> height img \<and>
               (\<exists>t. app_center_image_on_canvas img S bg = Inr (cv, t))"
    then obtain t where r: "app_center_image_on_canvas img S bg = Inr (cv, t)" by blast
    show ?thesis
    proof (cases "width img > S \<or> height img > S")
      case False
      then have "cv = paste_centered (new_canvas S bg) img S \<and> width img \<le> S \<and> height img \<le> S"
        using r by (auto simp: app_center_image_on_canvas_def)
      then show ?thesis using fits by blast
    next
      case True
      have nz: "width img \<noteq> 0 \<and> height img \<noteq> 0"
        using r True
        by (auto simp: app_center_image_on_canvas_def new_size_def true_div_def
            split: if_splits sum.splits)
      then have pos: "0 < width img" "0 < height img" using a by simp_all
      obtain nw nh where n: "new_size (width img) (height img) S = Inr (nw, nh)"
        and b: "nw \<le> S" "nh \<le> S"
        using new_size_bounds [OF pos] a by blast
      have "cv = paste_centered (new_canvas S bg) (resize img (nw, nh)) S"
        using r True n by (simp add: app_center_image_on_canvas_def)
      moreover have "width (resize img (nw, nh)) \<le> S" "height (resize img (nw, nh)) \<le> S"
        using b by (simp_all add: resize_def)
      ultimately show ?thesis using fits by blast
    qed
  qed
qed

theorem C10_paste_inside_canvas_witness:
  "fst (center_image_on_canvas (plain_image 3 4 ''RGB'' []) 6 None) =
     Some (paste_centered (new_canvas 6 None) (plain_image 3 4 ''RGB'' []) 6) \<and>
   (\<exists>im x y. c_pasted (paste_centered (new_canvas 6 None) (plain_image 3 4 ''RGB'' []) 6) = Some im \<and>
      c_box (paste_centered (new_canvas 6 None) (plain_image 3 4 ''RGB'' []) 6) = (x, y) \<and>
      0 \<le> x \<and> 0 \<le> y \<and> x + width im \<le> 6 \<and> y + height im \<le> 6)"
proof -
  let ?img = "plain_image 3 4 ''RGB'' []"
  let ?cv = "paste_centered (new_canvas 6 None) ?img 6"
  have h: "fst (center_image_on_canvas ?img 6 None) = Some ?cv"
    by (simp add: center_image_on_canvas_def plain_image_def)
  have "fst (center_image_on_canvas ?img 6 None) = Some ?cv \<or>
        (0 < (6::int) \<and> (6::int) < 2 ^ 31 \<and> 0 \<le> width ?img \<and> 0 \<le> height ?img \<and>
         (\<exists>t. app_center_image_on_canvas ?img 6 None = Inr (?cv, t)))"
    using h by blast
  from C10_paste_inside_canvas [OF this] h show ?thesis by blast
qed

section \<open>An image of exactly the canvas size\<close>




section \<open>Transparent background\<close>




section \<open>The colour parser\<close>

text \<open>
  Claim C4. \<open>parse_color\<close> maps \<open>#ffffff\<close> and \<open>#fff\<close> to \<open>(255, 255, 255)\<close> and
  \<open>abc\<close> to \<open>(170, 187, 204)\<close>; it raises ValueError \<open>Invalid color format\<close> on
  \<open>12\<close> and on every string whose length, after stripping whitespace and one leading
  \<open>#\<close>, is neither 6 nor 3. Whenever \<open>parse_color\<close> raises, \<open>main\<close> logs the error and
  exits with status 1, having opened no image.
\<close>

theorem C4_parse_color:
  "parse_color (Some ''#ffffff'') = Inr (Some (255, 255, 255)) \<and>
   parse_color (Some ''#fff'') = Inr (Some (255, 255, 255)) \<and>
   parse_color (Some ''abc'') = Inr (Some (170, 187, 204)) \<and>
   parse_color (Some ''12'') = Inl (ValueError ''Invalid color format'') \<and>
   (\<forall>s. length (strip_hash s) \<noteq> 6 \<and> length (strip_hash s) \<noteq> 3 \<longrightarrow>
        parse_color (Some s) = Inl (ValueError ''Invalid color format'')) \<and>
   (\<forall>w args e. parse_color (a_bg args) = Inl e \<longrightarrow>
        main w args = (Exit 1, [Log ERROR (exn_message e)]))"
proof -
  have a: "parse_color (Some ''#ffffff'') = Inr (Some (255, 255, 255))" by code_simp
  have b: "parse_color (Some ''#fff'') = Inr (Some (255, 255, 255))" by code_simp
  have c: "parse_color (Some ''abc'') = Inr (Some (170, 187, 204))" by code_simp
  have d: "parse_color (Some ''12'') = Inl (ValueError ''Invalid color format'')" by code_simp
  have e: "parse_color (Some s) = Inl (ValueError ''Invalid color format'')"
    if "length (strip_hash s) \<noteq> 6 \<and> length (strip_hash s) \<noteq> 3" for s
    using that by (simp add: parse_color_def Let_def)
  have f: "main w args = (Exit 1, [Log ERROR (exn_message e)])"
    if "parse_color (a_bg args) = Inl e" for w args e
    using that by (simp add: main_def Let_def)
  show ?thesis using a b c d e f by blast
qed

theorem C4_parse_color_witness:
  "length (strip_hash ''12'') \<noteq> 6 \<and> length (strip_hash ''12'') \<noteq> 3 \<and>
   parse_color (Some ''12'') = Inl (ValueError ''Invalid color format'') \<and>
   main (still_world (plain_image 10 10 ''RGB'' []))
     \<lparr>a_input = file_path ''a'' ''.jpg'', a_output = file_path ''b'' ''.png'', a_size = 1200,
      a_bg = Some ''12''\<rparr> = (Exit 1, [Log ERROR ''Invalid color format''])"
proof -
  let ?args = "\<lparr>a_input = file_path ''a'' ''.jpg'', a_output = file_path ''b'' ''.png'',
                 a_size = 1200, a_bg = Some ''12''\<rparr>"
  have l: "length (strip_hash ''12'') \<noteq> 6 \<and> length (strip_hash ''12'') \<noteq> 3" by code_simp
  have p: "parse_color (a_bg ?args) = Inl (ValueError ''Invalid color format'')"
    using C4_parse_color l by simp
  have "main (still_world (plain_image 10 10 ''RGB'' [])) ?args =
          (Exit 1, [Log ERROR (exn_message (ValueError ''Invalid color format''))])"
    using C4_parse_color p by blast
  then show ?thesis using l p by (simp add: exn_message_def)
qed

section \<open>Orientation failures\<close>



section \<open>Metadata on the encoded output\<close>

text \<open>
  Claim C6, as stated, has every composited image keep its EXIF and colour profile. In
  \<^verbatim>\<open>app.py\<close> the canvas is saved with the format alone: for a source with both blobs the
  save call carries neither.
\<close>

theorem C6_web_drops_metadata_counterexample:
  "truthy (map_of (info exif_image) ''exif'') \<and>
   process_single_image (still_world exif_image) (file_path ''a'' ''.jpg'')
       (file_path ''a'' ''.png'') 1200 None =
     (True, [Decode (file_path ''a'' ''.jpg''),
             Save (file_path ''a'' ''.png'') png_kwargs
               (paste_centered (new_canvas 1200 None) exif_image 1200),
             Log INFO ''Processed'']) \<and>
   k_exif png_kwargs = None \<and> k_icc_profile png_kwargs = None"
proof -
  have a: "apply_exif_orientation (still_world exif_image) exif_image = (exif_image, [])"
    by (simp add: apply_exif_orientation_def still_world_def)
  have c: "app_center_image_on_canvas exif_image 1200 None =
             Inr (paste_centered (new_canvas 1200 None) exif_image 1200, [])"
    by (simp add: app_center_image_on_canvas_def exif_image_def plain_image_def)
  have o: "Image_open (still_world exif_image) (file_path ''a'' ''.jpg'') = Inr exif_image"
      "Image_save (still_world exif_image) = (\<lambda>cv p kw. None)"
    by (simp_all add: still_world_def)
  have t: "truthy (map_of (info exif_image) ''exif'')"
    by (simp add: truthy_def exif_image_def plain_image_def)
  show ?thesis
    using a c o t by (simp add: process_single_image_def png_kwargs_def)
qed

text \<open>
  Claim C6, amended. In \<^verbatim>\<open>image_formatter.py\<close>, for a composited image, the \<open>exif\<close> and
  \<open>icc_profile\<close> entries of the image returned by \<open>apply_exif_orientation\<close>, when
  present and not empty, are passed unchanged to the save call; if the save call
  returns, the output is emitted with them, and if it raises, for whatever reason,
  \<open>process_image\<close> returns \<open>False\<close> and nothing is emitted. In \<^verbatim>\<open>app.py\<close> the save call
  carries no metadata.
\<close>

theorem C6_metadata_passed_to_save:
  assumes "Image_open w p = Inr img0"
    and "apply_exif_orientation w img0 = (img, t1)"
    and "center_image_on_canvas img S bg = (Some cv, t2)"
  shows "k_exif (save_kwargs_for out img) =
           (if truthy (map_of (info img) ''exif'') then map_of (info img) ''exif'' else None) \<and>
         k_icc_profile (save_kwargs_for out img) =
           (if truthy (map_of (info img) ''icc_profile'') then map_of (info img) ''icc_profile''
            else None) \<and>
         (Image_save w cv out (save_kwargs_for out img) = None \<longrightarrow>
            process_image w p out S bg =
              (True, Decode p # t1 @ t2 @
                     [Save out (save_kwargs_for out img) cv, Log INFO ''Processed''])) \<and>
         (Image_save w cv out (save_kwargs_for out img) \<noteq> None \<longrightarrow>
            process_image w p out S bg =
              (False, Decode p # t1 @ t2 @ [Log ERROR ''Error processing''])) \<and>
         (\<forall>cv' t. app_center_image_on_canvas img S bg = Inr (cv', t) \<and>
                  Image_save w cv' out png_kwargs = None \<longrightarrow>
            process_single_image w p out S bg =
              (True, Decode p # t1 @ t @ [Save out png_kwargs cv', Log INFO ''Processed''])) \<and>
         k_exif png_kwargs = None \<and> k_icc_profile png_kwargs = None"
proof -
  have k: "k_exif (save_kwargs_for out img) =
           (if truthy (map_of (info img) ''exif'') then map_of (info img) ''exif'' else None) \<and>
         k_icc_profile (save_kwargs_for out img) =
           (if truthy (map_of (info img) ''icc_profile'') then map_of (info img) ''icc_profile''
            else None)"
    by (simp add: save_kwargs_for_def Let_def)
  have r: "process_image w p out S bg =
             (case Image_save w cv out (save_kwargs_for out img) of
                Some e \<Rightarrow> (False, Decode p # t1 @ t2 @ [Log ERROR ''Error processing''])
              | None \<Rightarrow> (True, Decode p # t1 @ t2 @
                            [Save out (save_kwargs_for out img) cv, Log INFO ''Processed'']))"
    using assms by (simp add: process_image_def Let_def)
  have ws: "process_single_image w p out S bg =
              (True, Decode p # t1 @ t @ [Save out png_kwargs cv', Log INFO ''Processed''])"
    if "app_center_image_on_canvas img S bg = Inr (cv', t) \<and>
        Image_save w cv' out png_kwargs = None" for cv' t
    using that assms(1,2) by (simp add: process_single_image_def)
  have pk: "k_exif png_kwargs = None \<and> k_icc_profile png_kwargs = None"
    by (simp add: png_kwargs_def)
  have cli: "(Image_save w cv out (save_kwargs_for out img) = None \<longrightarrow>
            process_image w p out S bg =
              (True, Decode p # t1 @ t2 @
                     [Save out (save_kwargs_for out img) cv, Log INFO ''Processed''])) \<and>
         (Image_save w cv out (save_kwargs_for out img) \<noteq> None \<longrightarrow>
            process_image w p out S bg =
              (False, Decode p # t1 @ t2 @ [Log ERROR ''Error processing'']))"
    using r by (auto split: option.splits)
  show ?thesis using k cli ws pk by blast
qed

theorem C6_metadata_passed_to_save_witness:
  "Image_open (still_world exif_image) (file_path ''a'' ''.jpg'') = Inr exif_image \<and>
   apply_exif_orientation (still_world exif_image) exif_image = (exif_image, []) \<and>
   center_image_on_canvas exif_image 1200 None =
     (Some (paste_centered (new_canvas 1200 None) exif_image 1200), []) \<and>
   k_exif (save_kwargs_for (file_path ''a'' ''.png'') exif_image) = Some ''Exif-II*'' \<and>
   k_icc_profile (save_kwargs_for (file_path ''a'' ''.png'') exif_image) = Some ''sRGB'' \<and>
   process_image (still_world exif_image) (file_path ''a'' ''.jpg'') (file_path ''a'' ''.png'')
       1200 None =
     (True, [Decode (file_path ''a'' ''.jpg''),
             Save (file_path ''a'' ''.png'') (save_kwargs_for (file_path ''a'' ''.png'') exif_image)
               (paste_centered (new_canvas 1200 None) exif_image 1200),
             Log INFO ''Processed''])"
proof -
  let ?w = "still_world exif_image"
  let ?cv = "paste_centered (new_canvas 1200 None) exif_image 1200"
  have o: "Image_open ?w (file_path ''a'' ''.jpg'') = Inr exif_image"
    by (simp add: still_world_def)
  have a: "apply_exif_orientation ?w exif_image = (exif_image, [])"
    by (simp add: apply_exif_orientation_def still_world_def)
  have c: "center_image_on_canvas exif_image 1200 None = (Some ?cv, [])"
    by (simp add: center_image_on_canvas_def exif_image_def plain_image_def)
  have s: "Image_save ?w ?cv (file_path ''a'' ''.png'')
             (save_kwargs_for (file_path ''a'' ''.png'') exif_image) = None"
    by (simp add: still_world_def)
  have m: "map_of (info exif_image) ''exif'' = Some ''Exif-II*''"
      "map_of (info exif_image) ''icc_profile'' = Some ''sRGB''"
    by (simp_all add: exif_image_def plain_image_def)
  from C6_metadata_passed_to_save [OF o a c, of "file_path ''a'' ''.png''"] o a c s m
  show ?thesis by (simp add: truthy_def)
qed

section \<open>Unsupported extensions\<close>

lemma gif_unsupported: "lower ''.gif'' \<notin> SUPPORTED_FORMATS"
  by (simp add: lower_def lower_char_def SUPPORTED_FORMATS_def)

text \<open>
  Claim C7, as stated, has every unsupported input classified as a skip with nothing
  propagating. In the single-file mode of \<^verbatim>\<open>image_formatter.py\<close> the program ends with
  \<^verbatim>\<open>sys.exit(1)\<close>, as it does for an invalid colour; in its folder mode the file is
  passed over and the closing line counts 0 skipped.
\<close>

theorem C7_single_file_exit_counterexample:
  "lower (p_suffix (file_path ''anim'' ''.gif'')) \<notin> SUPPORTED_FORMATS \<and>
   main gif_world
     \<lparr>a_input = file_path ''anim'' ''.gif'', a_output = file_path ''out'' ''.png'',
      a_size = 1200, a_bg = None\<rparr> = (Exit 1, [Log ERROR ''Unsupported file format'']) \<and>
   main gif_world
     \<lparr>a_input = file_path ''photos'' [], a_output = file_path ''out'' [],
      a_size = 1200, a_bg = None\<rparr> = (Return, [Complete 0 0])"
  using gif_unsupported
  by (simp add: main_def parse_color_def gif_world_def file_path_def Let_def)

text \<open>
  Claim C7, amended. An input whose lower-cased extension is not in the supported set
  is never opened as an image and no output is written for it. The upload loop of
  \<^verbatim>\<open>app.py\<close> logs a warning and adds one to the skipped count; the folder loop of
  \<^verbatim>\<open>image_formatter.py\<close> passes over it, changing neither count and logging nothing;
  the single-file mode logs an error and exits with status 1.
\<close>

theorem C7_unsupported_extension:
  "(raw \<noteq> [] \<and> lower (name_suffix (secure_filename w raw)) \<notin> SUPPORTED_FORMATS \<longrightarrow>
      process_upload w tin tout st raw =
        Some (st\<lparr>skipped_count := skipped_count st + 1,
                 trace := trace st @ [Log INFO ''Processing file'',
                                      Log WARNING ''Unsupported format'']\<rparr>)) \<and>
   (lower (p_suffix f) \<notin> SUPPORTED_FORMATS \<longrightarrow>
      process_folder w out S bg (f # rest) (m, n, t) = process_folder w out S bg rest (m, n, t)) \<and>
   (parse_color (a_bg args) = Inr bg \<and> path_exists w (a_input args) \<and>
    is_file w (a_input args) \<and> lower (p_suffix (a_input args)) \<notin> SUPPORTED_FORMATS \<longrightarrow>
      main w args = (Exit 1, [Log ERROR ''Unsupported file format'']))"
  by (simp add: process_upload_def main_def Let_def)

theorem C7_unsupported_extension_witness:
  "''anim.gif'' \<noteq> [] \<and>
   lower (name_suffix (secure_filename gif_world ''anim.gif'')) \<notin> SUPPORTED_FORMATS \<and>
   process_upload gif_world ''in'' ''out'' fresh_state ''anim.gif'' =
     Some (fresh_state\<lparr>skipped_count := 1,
             trace := [Log INFO ''Processing file'', Log WARNING ''Unsupported format'']\<rparr>) \<and>
   lower (p_suffix (file_path ''anim'' ''.gif'')) \<notin> SUPPORTED_FORMATS \<and>
   process_folder gif_world (file_path ''out'' []) 1200 None [file_path ''anim'' ''.gif'']
     (0, 0, []) = (0, 0, []) \<and>
   main gif_world
     \<lparr>a_input = file_path ''anim'' ''.gif'', a_output = file_path ''out'' ''.png'',
      a_size = 1200, a_bg = None\<rparr> = (Exit 1, [Log ERROR ''Unsupported file format''])"
proof -
  let ?args = "\<lparr>a_input = file_path ''anim'' ''.gif'', a_output = file_path ''out'' ''.png'',
                 a_size = 1200, a_bg = None\<rparr>"
  have h3: "parse_color (a_bg ?args) = Inr None \<and> path_exists gif_world (a_input ?args) \<and>
            is_file gif_world (a_input ?args) \<and>
            lower (p_suffix (a_input ?args)) \<notin> SUPPORTED_FORMATS"
    using gif_unsupported by (simp add: parse_color_def gif_world_def file_path_def)
  have c: "main gif_world ?args = (Exit 1, [Log ERROR ''Unsupported file format''])"
    using C7_unsupported_extension [where args = ?args and w = gif_world and bg = None] h3
    by blast
  have s: "name_suffix ''anim.gif'' = ''.gif''"
    by (simp add: name_suffix_def rfind_dot_def)
  have h1: "''anim.gif'' \<noteq> [] \<and>
            lower (name_suffix (secure_filename gif_world ''anim.gif'')) \<notin> SUPPORTED_FORMATS"
    using gif_unsupported s by (simp add: gif_world_def)
  have h2: "lower (p_suffix (file_path ''anim'' ''.gif'')) \<notin> SUPPORTED_FORMATS"
    using gif_unsupported by (simp add: file_path_def)
  have a: "process_upload gif_world ''in'' ''out'' fresh_state ''anim.gif'' =
        Some (fresh_state\<lparr>skipped_count := skipped_count fresh_state + 1,
                 trace := trace fresh_state @ [Log INFO ''Processing file'',
                                      Log WARNING ''Unsupported format'']\<rparr>)"
    using C7_unsupported_extension [of "''anim.gif''" gif_world "''in''" "''out''" fresh_state] h1
    by blast
  have b: "process_folder gif_world (file_path ''out'' []) 1200 None
             (file_path ''anim'' ''.gif'' # []) (0, 0, []) =
           process_folder gif_world (file_path ''out'' []) 1200 None [] (0, 0, [])"
    using C7_unsupported_extension [where f = "file_path ''anim'' ''.gif''" and w = gif_world] h2
    by blast
  show ?thesis using h1 h2 a b c by (simp add: fresh_state_def)
qed

end
